theory Spec2Isabelle
  imports Main "HOL-Library.Word"
begin

section \<open>Values thrown by external collaborators\<close>

text \<open>
  A collaborator (the streaming client, file collection, a state's interaction handler)
  may throw any JavaScript value. This code looks at a thrown value only in the catch
  block of \<open>Session.send\<close>, which reads \<open>e.code\<close>, \<open>e.statusCode\<close> and \<open>e.message\<close>.
  Reading a property of \<open>undefined\<close> or \<open>null\<close> raises a \<open>TypeError\<close>; on any other
  value it yields the property, or \<open>undefined\<close> where the value does not carry it. So a
  thrown value is either \<open>Nullish\<close> (\<open>undefined\<close> or \<open>null\<close>, as from \<open>throw undefined\<close>
  or \<open>Promise.reject()\<close>) or a value seen through these three fields, each \<open>None\<close>
  where absent.
\<close>

record error_fields =
  code :: "string option"
  statusCode :: "string option"
  message :: "string option"

datatype thrown =
  Nullish
  | Thrown error_fields

section \<open>Result archive retrieval\<close>

text \<open>
  \<open>downloadExportResultArchive\<close> of the export-result-archive module. The streaming
  client's types come from an external package; a chunk is modelled by the one member
  the code reads, \<open>binaryPayloadEvent\<close>, whose \<open>bytes\<close> may be absent. The response body
  is a finite sequence of chunks, or absent (\<open>undefined\<close>).
\<close>

type_synonym byte = "8 word"

record BinaryPayloadEvent =
  bytes :: "byte list option"

record ResultArchiveStream =
  binaryPayloadEvent :: "BinaryPayloadEvent option"

record ExportResultArchiveCommandOutput =
  body :: "ResultArchiveStream list option"
  requestId :: "string option"

text \<open>The file system as far as \<open>fs.writeFile\<close> is concerned: a whole-file write.\<close>

type_synonym filesystem = "string \<rightharpoonup> byte list"

definition writeFile :: "string \<Rightarrow> byte list \<Rightarrow> filesystem \<Rightarrow> filesystem" where
  "writeFile toPath content files = files(toPath \<mapsto> content)"

text \<open>
  The telemetry event of \<open>codeTransform_logApiLatency.emit\<close>, without the fields read
  from ambient singletons and the clock (session id, job id, latency).
\<close>

record ApiLatencyEvent =
  codeTransformApiNames :: string
  codeTransformTotalByteSize :: nat
  codeTransformRequestId :: "string option"

datatype download_error =
  ToolkitError string
  | ClientError thrown

text \<open>
  The \<open>for await\<close> loop over \<open>result.body\<close>, with its two accumulators \<open>buffer\<close> and
  \<open>totalDownloadBytes\<close>. \<open>if (chunk.binaryPayloadEvent)\<close> and \<open>if (chunkData.bytes)\<close>
  test for presence: a byte array is an object, so an empty one is still pushed.
\<close>

fun consumeBody :: "ResultArchiveStream list \<Rightarrow> byte list list \<Rightarrow> nat \<Rightarrow> byte list list \<times> nat" where
  "consumeBody [] buffer totalDownloadBytes = (buffer, totalDownloadBytes)"
| "consumeBody (chunk # rest) buffer totalDownloadBytes =
     (case binaryPayloadEvent chunk of
        None \<Rightarrow> consumeBody rest buffer totalDownloadBytes
      | Some chunkData \<Rightarrow>
          (case bytes chunkData of
             None \<Rightarrow> consumeBody rest buffer totalDownloadBytes
           | Some b \<Rightarrow> consumeBody rest (buffer @ [b]) (totalDownloadBytes + length b)))"

text \<open>
  The whole call. The client is a function from the request to what the request
  produced: a thrown value or a response. The result is the outcome (the error raised, or
  the telemetry event emitted) together with the file system afterwards.
\<close>

definition downloadExportResultArchive ::
  "('a \<Rightarrow> thrown + ExportResultArchiveCommandOutput) \<Rightarrow> 'a \<Rightarrow> string \<Rightarrow> filesystem
     \<Rightarrow> (download_error + ApiLatencyEvent) \<times> filesystem" where
  "downloadExportResultArchive cwStreamingClient exportResultArchiveArgs toPath files =
     (case cwStreamingClient exportResultArchiveArgs of
        Inl e \<Rightarrow> (Inl (ClientError e), files)
      | Inr result \<Rightarrow>
          (case body result of
             None \<Rightarrow>
               (Inl (ToolkitError ''Empty response from Amazon Q inline suggestions streaming service''),
                files)
           | Some chunks \<Rightarrow>
               (case consumeBody chunks [] 0 of
                  (buffer, totalDownloadBytes) \<Rightarrow>
                    (Inr \<lparr>codeTransformApiNames = ''ExportResultArchive'',
                          codeTransformTotalByteSize = totalDownloadBytes,
                          codeTransformRequestId = requestId result\<rparr>,
                     writeFile toPath (concat buffer) files))))"

text \<open>
  What the specification calls the binary-payload fragments of a chunk sequence: the
  byte fragments of the chunks that carry one, in arrival order. This definition follows
  the specification's words and is what \<open>consumeBody\<close> is compared with.
\<close>

definition payloadFragment :: "ResultArchiveStream \<Rightarrow> byte list option" where
  "payloadFragment chunk =
     (case binaryPayloadEvent chunk of None \<Rightarrow> None | Some chunkData \<Rightarrow> bytes chunkData)"

definition payloadFragments :: "ResultArchiveStream list \<Rightarrow> byte list list" where
  "payloadFragments chunks = List.map_filter payloadFragment chunks"

section \<open>Conversation state machine\<close>

subsection \<open>State objects and the heap\<close>

text \<open>
  A \<open>SessionState\<close> is a mutable object: the session holds a reference to the current
  one, a handler may keep, change or return references, and an object that has been
  replaced still exists with its cancellation token. So the objects live in a store
  indexed by references, and \<open>new\<close> allocates the next unused reference.

  The fields are the capabilities that \<open>Session\<close> uses: \<open>conversationId\<close> (absent when
  \<open>undefined\<close>), \<open>approach\<close> (here \<open>stateApproach\<close>, since the session has a field of the
  same name) and \<open>tokenSource\<close>, modelled by whether \<open>cancel()\<close> has been called on it.
\<close>

datatype state_class = RefinementStateClass | CodeGenStateClass

record SessionState =
  stateClass :: state_class
  conversationId :: "string option"
  stateApproach :: string
  tokenCancelled :: bool

type_synonym ref = nat

record store =
  objects :: "ref \<Rightarrow> SessionState"
  nextRef :: ref

definition new :: "SessionState \<Rightarrow> store \<Rightarrow> ref \<times> store" where
  "new obj h = (nextRef h, h\<lparr>objects := (objects h)(nextRef h := obj), nextRef := Suc (nextRef h)\<rparr>)"

text \<open>
  Modelled from the spec: the constructor of \<open>RefinementState\<close> (module \<open>sessionState\<close>,
  missing from the sources), called with the configuration and an approach. A fresh
  Refinement state has no conversation id and owns a fresh, uncancelled token.
\<close>

definition RefinementState :: "string \<Rightarrow> SessionState" where
  "RefinementState approach0 =
     \<lparr>stateClass = RefinementStateClass, conversationId = None,
      stateApproach = approach0, tokenCancelled = False\<rparr>"

text \<open>
  Modelled from the spec: the constructor of \<open>CodeGenState\<close> (module \<open>sessionState\<close>,
  missing from the sources), called with a configuration that carries the conversation
  id, and an approach. The state is seeded with both and owns a fresh, uncancelled token.
\<close>

definition CodeGenState :: "string \<Rightarrow> string \<Rightarrow> SessionState" where
  "CodeGenState conversationId0 approach0 =
     \<lparr>stateClass = CodeGenStateClass, conversationId = Some conversationId0,
      stateApproach = approach0, tokenCancelled = False\<rparr>"

text \<open>\<open>this.state.tokenSource.cancel()\<close> and \<open>this.state.approach = newApproach\<close> on an object.\<close>

definition cancel :: "ref \<Rightarrow> store \<Rightarrow> store" where
  "cancel r h = h\<lparr>objects := (objects h)(r := (objects h r)\<lparr>tokenCancelled := True\<rparr>)\<rparr>"

definition setApproach :: "ref \<Rightarrow> string \<Rightarrow> store \<Rightarrow> store" where
  "setApproach r a h = h\<lparr>objects := (objects h)(r := (objects h r)\<lparr>stateApproach := a\<rparr>)\<rparr>"

subsection \<open>Interactions and handlers\<close>

datatype origin = ai | user

record Interaction =
  origin :: origin
  type :: string
  content :: string

type_synonym files = "(string \<times> string) list"

text \<open>
  The argument of \<open>interact\<close>, without the two capabilities passed along (\<open>fs\<close> and
  \<open>addToChat\<close>), and its result.
\<close>

datatype SessionStateAction =
  SessionStateAction (actionFiles: files) (actionTask: string) (actionMsg: "string option")

record SessionStateInteraction =
  nextState :: "ref option"
  interactions :: "Interaction list"

text \<open>
  The collaborators of one turn. \<open>interact\<close> stands for the method \<open>this.state.interact\<close>:
  it is given the action, the reference of the object it is called on and the store; it
  returns or throws, and leaves the store as it changed it (its own fields, new objects).
  \<open>collectFiles\<close> is the outcome of \<open>collectFiles(path.join(workspaceRoot, 'src'))\<close> in
  this turn.
\<close>

record env =
  collectFiles :: "thrown + files"
  interact :: "SessionStateAction \<Rightarrow> ref \<Rightarrow> store \<Rightarrow> (thrown + SessionStateInteraction) \<times> store"

subsection \<open>The session\<close>

text \<open>
  The fields of \<open>Session\<close> that change (\<open>_state\<close>, \<open>task\<close>, \<open>approach\<close>), together with
  the store of state objects. Calls are modelled one at a time, each running to
  completion: no second call starts while one is suspended at an \<open>await\<close>.
\<close>

record Session =
  state :: ref
  task :: string
  approach :: string
  heap :: store

text \<open>The constructor: \<open>this._state = new RefinementState(this.getSessionStateConfig(), '')\<close>.\<close>

definition newSession :: "store \<Rightarrow> Session" where
  "newSession h =
     (case new (RefinementState '''') h of
        (r, h') \<Rightarrow> \<lparr>state = r, task = '''', approach = '''', heap = h'\<rparr>)"

definition currentState :: "Session \<Rightarrow> SessionState" where
  "currentState s = objects (heap s) (state s)"

definition nextInteraction :: "env \<Rightarrow> string option \<Rightarrow> Session \<Rightarrow> (thrown + Interaction list) \<times> Session" where
  "nextInteraction e msg s =
     (case collectFiles e of
        Inl err \<Rightarrow> (Inl err, s)
      | Inr fs \<Rightarrow>
          (case interact e (SessionStateAction fs (task s) msg) (state s) (heap s) of
             (Inl err, h) \<Rightarrow> (Inl err, s\<lparr>heap := h\<rparr>)
           | (Inr resp, h) \<Rightarrow>
               (case nextState resp of
                  None \<Rightarrow> (Inr (interactions resp), s\<lparr>heap := h\<rparr>)
                | Some n \<Rightarrow>
                    (let newApproach = stateApproach (objects h (state s));
                         h1 = cancel (state s) h;
                         h2 = setApproach n newApproach h1
                     in (Inr (interactions resp),
                         s\<lparr>heap := h2, state := n, approach := newApproach\<rparr>)))))"

definition sendUnsafe :: "env \<Rightarrow> string \<Rightarrow> Session \<Rightarrow> (thrown + Interaction list) \<times> Session" where
  "sendUnsafe e msg s =
     (if msg = ''CLEAR'' then
        (case new (RefinementState '''') (heap s) of
           (r, h) \<Rightarrow>
             (Inr [\<lparr>origin = ai, type = ''message'',
                    content = ''Finished the session for you. Feel free to restart the session by typing the task you want to achieve.''\<rparr>],
              s\<lparr>task := '''', approach := '''', state := r, heap := h\<rparr>))
      else nextInteraction e (Some msg) (if task s = '''' then s\<lparr>task := msg\<rparr> else s))"

text \<open>A template literal prints an absent field as \<open>undefined\<close>.\<close>

definition show_field :: "string option \<Rightarrow> string" where
  "show_field f = (case f of None \<Rightarrow> ''undefined'' | Some v \<Rightarrow> v)"

definition errorContent :: "error_fields \<Rightarrow> string" where
  "errorContent err =
     ''Received error: '' @ show_field (code err) @ '' and status code: '' @ show_field (statusCode err)
       @ '' ['' @ show_field (message err) @ ''] when trying to send the request to the Weaverbird API''"

text \<open>
  \<open>send\<close>: the try block returns what \<open>sendUnsafe\<close> returns; the catch block builds the
  content from the fields of the thrown value and returns the one interaction. When the
  thrown value is \<open>undefined\<close> or \<open>null\<close>, reading \<open>e.code\<close> in the catch block raises a
  \<open>TypeError\<close>, which leaves \<open>send\<close> as a rejection of its promise.
\<close>

datatype send_error = TypeError

definition send :: "env \<Rightarrow> string \<Rightarrow> Session \<Rightarrow> (send_error + Interaction list) \<times> Session" where
  "send e msg s =
     (case sendUnsafe e msg s of
        (Inr result, s') \<Rightarrow> (Inr result, s')
      | (Inl err, s') \<Rightarrow>
          (case err of
             Nullish \<Rightarrow> (Inl TypeError, s')
           | Thrown obj \<Rightarrow>
               (Inr [\<lparr>origin = ai, type = ''message'', content = errorContent obj\<rparr>], s')))"

datatype startCodegen_error =
  ConversationIdNotFoundError
  | Propagated thrown

text \<open>
  \<open>!this.state.conversationId\<close> holds for \<open>undefined\<close> and for the empty string.
\<close>

definition startCodegen :: "env \<Rightarrow> Session \<Rightarrow> (startCodegen_error + unit) \<times> Session" where
  "startCodegen e s =
     (case conversationId (currentState s) of
        None \<Rightarrow> (Inl ConversationIdNotFoundError, s)
      | Some cid \<Rightarrow>
          if cid = '''' then (Inl ConversationIdNotFoundError, s)
          else
            (case new (CodeGenState cid (approach s)) (heap s) of
               (r, h) \<Rightarrow>
                 (case nextInteraction e None (s\<lparr>state := r, heap := h\<rparr>) of
                    (Inl err, s') \<Rightarrow> (Inl (Propagated err), s')
                  | (Inr result, s') \<Rightarrow> (Inr (), s'))))"

text \<open>
  A run of turns: \<open>send\<close> called once per turn, each call with the collaborators it
  meets and its message, each call starting where the previous one ended.
\<close>

fun sends :: "(env \<times> string) list \<Rightarrow> Session \<Rightarrow> Session" where
  "sends [] s = s"
| "sends ((e, msg) # turns) s = sends turns (snd (send e msg s))"

section \<open>Sample inputs\<close>

text \<open>
  Concrete collaborators on which the definitions above are run: streaming clients, a
  store and interaction handlers. \<open>movingInteract\<close> behaves as a Refinement handler that
  answers with an approach and signals a next state carrying a conversation id;
  \<open>quietInteract\<close> records the approach and the conversation id on the state it is
  called on and signals no transition. Both leave a CodeGen state alone.
  \<open>rejectingInteract\<close> rejects with no reason, so what is thrown is \<open>undefined\<close>;
  \<open>wreckingInteract\<close> writes an approach on its state and then throws an error object.
\<close>

definition payloadChunk :: "byte list \<Rightarrow> ResultArchiveStream" where
  "payloadChunk b = \<lparr>binaryPayloadEvent = Some \<lparr>bytes = Some b\<rparr>\<rparr>"

definition otherChunk :: ResultArchiveStream where
  "otherChunk = \<lparr>binaryPayloadEvent = None\<rparr>"

definition bytelessChunk :: ResultArchiveStream where
  "bytelessChunk = \<lparr>binaryPayloadEvent = Some \<lparr>bytes = None\<rparr>\<rparr>"

definition threeChunks :: "ResultArchiveStream list" where
  "threeChunks = [payloadChunk [1, 2, 3, 4, 5, 6, 7, 8, 9, 10], otherChunk, payloadChunk [11, 12, 13, 14, 15]]"

definition threeChunkClient :: "unit \<Rightarrow> thrown + ExportResultArchiveCommandOutput" where
  "threeChunkClient request = Inr \<lparr>body = Some threeChunks, requestId = Some ''r1''\<rparr>"

definition noBodyClient :: "unit \<Rightarrow> thrown + ExportResultArchiveCommandOutput" where
  "noBodyClient request = Inr \<lparr>body = None, requestId = Some ''r2''\<rparr>"

definition emptyBodyClient :: "unit \<Rightarrow> thrown + ExportResultArchiveCommandOutput" where
  "emptyBodyClient request = Inr \<lparr>body = Some [], requestId = Some ''r3''\<rparr>"

definition oldArchive :: filesystem where
  "oldArchive = [''out.zip'' \<mapsto> [7, 7]]"

definition sampleStore :: store where
  "sampleStore = \<lparr>objects = (\<lambda>_. RefinementState ''''), nextRef = 0\<rparr>"

definition quietInteract ::
  "SessionStateAction \<Rightarrow> ref \<Rightarrow> store \<Rightarrow> (thrown + SessionStateInteraction) \<times> store" where
  "quietInteract action r h =
     (if stateClass (objects h r) = RefinementStateClass then
        (Inr \<lparr>nextState = None,
              interactions = [\<lparr>origin = ai, type = ''message'', content = ''plan A''\<rparr>]\<rparr>,
         h\<lparr>objects := (objects h)(r := (objects h r)\<lparr>conversationId := Some ''c1'',
                                                      stateApproach := ''plan A''\<rparr>)\<rparr>)
      else (Inr \<lparr>nextState = None, interactions = []\<rparr>, h))"

definition movingInteract ::
  "SessionStateAction \<Rightarrow> ref \<Rightarrow> store \<Rightarrow> (thrown + SessionStateInteraction) \<times> store" where
  "movingInteract action r h =
     (if stateClass (objects h r) = RefinementStateClass then
        (case new ((RefinementState ''plan A'')\<lparr>conversationId := Some ''c1''\<rparr>)
                (setApproach r ''plan A'' h) of
           (n, h') \<Rightarrow>
             (Inr \<lparr>nextState = Some n,
                   interactions = [\<lparr>origin = ai, type = ''message'', content = ''plan A''\<rparr>]\<rparr>,
              h'))
      else (Inr \<lparr>nextState = None, interactions = []\<rparr>, h))"

definition quietEnv :: env where
  "quietEnv = \<lparr>collectFiles = Inr [], interact = quietInteract\<rparr>"

definition movingEnv :: env where
  "movingEnv = \<lparr>collectFiles = Inr [], interact = movingInteract\<rparr>"

definition noDirectory :: error_fields where
  "noDirectory = \<lparr>code = Some ''ENOENT'', statusCode = None, message = Some ''no such directory''\<rparr>"

definition failingEnv :: env where
  "failingEnv = \<lparr>collectFiles = Inl (Thrown noDirectory), interact = quietInteract\<rparr>"

definition rejectingInteract ::
  "SessionStateAction \<Rightarrow> ref \<Rightarrow> store \<Rightarrow> (thrown + SessionStateInteraction) \<times> store" where
  "rejectingInteract action r h = (Inl Nullish, h)"

definition rejectingEnv :: env where
  "rejectingEnv = \<lparr>collectFiles = Inr [], interact = rejectingInteract\<rparr>"

definition throttled :: error_fields where
  "throttled = \<lparr>code = Some ''ThrottlingException'', statusCode = Some ''429'', message = Some ''slow down''\<rparr>"

definition wreckingInteract ::
  "SessionStateAction \<Rightarrow> ref \<Rightarrow> store \<Rightarrow> (thrown + SessionStateInteraction) \<times> store" where
  "wreckingInteract action r h = (Inl (Thrown throttled), setApproach r ''half a plan'' h)"

definition wreckingEnv :: env where
  "wreckingEnv = \<lparr>collectFiles = Inr [], interact = wreckingInteract\<rparr>"

lemmas machine =
  newSession_def new_def RefinementState_def cancel_def setApproach_def currentState_def
  nextInteraction_def sendUnsafe_def send_def Let_def

section \<open>Properties of the archive retrieval\<close>

lemma consumeBody_acc:
  "consumeBody chunks buffer n =
     (buffer @ payloadFragments chunks, n + length (concat (payloadFragments chunks)))"
proof (induction chunks arbitrary: buffer n)
  case Nil
  show ?case by (simp add: payloadFragments_def)
next
  case (Cons chunk rest)
  show ?case
  proof (cases "payloadFragment chunk")
    case None
    then show ?thesis
      using Cons.IH [of buffer n]
      by (auto simp: payloadFragments_def payloadFragment_def split: option.splits)
  next
    case (Some b)
    then show ?thesis
      using Cons.IH [of "buffer @ [b]" "n + length b"]
      by (auto simp: payloadFragments_def payloadFragment_def split: option.splits)
  qed
qed

lemma consumeBody_start:
  "consumeBody chunks [] 0 =
     (payloadFragments chunks, length (concat (payloadFragments chunks)))"
  by (simp add: consumeBody_acc)

text \<open>
  C3. Whatever finite chunk sequence the body yields, the file written at the destination
  holds the concatenation, in arrival order, of the byte fragments of the chunks that
  carry one (the other chunks add nothing), and the byte count reported to telemetry is
  the length of that content.
\<close>

theorem download_persists_payload_in_order:
  assumes "cwStreamingClient args = Inr result" and "body result = Some chunks"
  shows "snd (downloadExportResultArchive cwStreamingClient args toPath files) toPath
           = Some (concat (payloadFragments chunks))
       \<and> map_sum id codeTransformTotalByteSize
           (fst (downloadExportResultArchive cwStreamingClient args toPath files))
           = Inr (length (concat (payloadFragments chunks)))"
  using assms
  by (simp add: downloadExportResultArchive_def consumeBody_start writeFile_def)

text \<open>
  C3 at the scenario of the specification: chunks of 10 bytes, no payload, and 5 bytes
  give a file of those 15 bytes and a reported total of 15.
\<close>

theorem download_persists_payload_in_order_witness:
  "threeChunkClient () = Inr \<lparr>body = Some threeChunks, requestId = Some ''r1''\<rparr>
   \<and> snd (downloadExportResultArchive threeChunkClient () ''out.zip'' oldArchive) ''out.zip''
       = Some [1, 2, 3, 4, 5, 6, 7, 8, 9, 10, 11, 12, 13, 14, 15]
   \<and> map_sum id codeTransformTotalByteSize
       (fst (downloadExportResultArchive threeChunkClient () ''out.zip'' oldArchive)) = Inr 15"
proof -
  have a: "threeChunkClient () = Inr \<lparr>body = Some threeChunks, requestId = Some ''r1''\<rparr>"
    by (simp add: threeChunkClient_def)
  have b: "body \<lparr>body = Some threeChunks, requestId = Some ''r1''\<rparr> = Some threeChunks"
    by simp
  have c: "concat (payloadFragments threeChunks) = [1, 2, 3, 4, 5, 6, 7, 8, 9, 10, 11, 12, 13, 14, 15]"
    by (simp add: payloadFragments_def payloadFragment_def threeChunks_def payloadChunk_def otherChunk_def)
  show ?thesis
    using a b
      download_persists_payload_in_order [of threeChunkClient "()"
        "\<lparr>body = Some threeChunks, requestId = Some ''r1''\<rparr>" threeChunks "''out.zip''" oldArchive]
    by (simp add: c)
qed

text \<open>
  C4. The retrieval raises the empty-response error exactly when the request produced a
  response without a body; a body that yields no chunk is not an error and leaves a
  zero-length file at the destination; and when the error is raised the file system is
  as it was.
\<close>

theorem empty_response_iff_no_body:
  "((\<exists>msg. fst (downloadExportResultArchive cwStreamingClient args toPath files) = Inl (ToolkitError msg))
      \<longleftrightarrow> (\<exists>result. cwStreamingClient args = Inr result \<and> body result = None))
   \<and> (\<forall>result. cwStreamingClient args = Inr result \<and> body result = Some [] \<longrightarrow>
         (\<exists>event. fst (downloadExportResultArchive cwStreamingClient args toPath files) = Inr event)
         \<and> snd (downloadExportResultArchive cwStreamingClient args toPath files) toPath = Some [])
   \<and> ((\<exists>msg. fst (downloadExportResultArchive cwStreamingClient args toPath files) = Inl (ToolkitError msg))
        \<longrightarrow> snd (downloadExportResultArchive cwStreamingClient args toPath files) = files)"
  by (auto simp: downloadExportResultArchive_def writeFile_def
      split: sum.splits option.splits prod.splits)

text \<open>
  C4 on a response without a body (the error, the earlier archive untouched) and on a
  body without chunks (no error, an empty file).
\<close>

theorem empty_response_iff_no_body_witness:
  "noBodyClient () = Inr \<lparr>body = None, requestId = Some ''r2''\<rparr>
   \<and> fst (downloadExportResultArchive noBodyClient () ''out.zip'' oldArchive)
       = Inl (ToolkitError ''Empty response from Amazon Q inline suggestions streaming service'')
   \<and> snd (downloadExportResultArchive noBodyClient () ''out.zip'' oldArchive) = oldArchive
   \<and> emptyBodyClient () = Inr \<lparr>body = Some [], requestId = Some ''r3''\<rparr>
   \<and> (\<exists>event. fst (downloadExportResultArchive emptyBodyClient () ''out.zip'' oldArchive) = Inr event)
   \<and> snd (downloadExportResultArchive emptyBodyClient () ''out.zip'' oldArchive) ''out.zip'' = Some []"
proof -
  have a: "noBodyClient () = Inr \<lparr>body = None, requestId = Some ''r2''\<rparr>"
    by (simp add: noBodyClient_def)
  have b: "emptyBodyClient () = Inr \<lparr>body = Some [], requestId = Some ''r3''\<rparr>"
    by (simp add: emptyBodyClient_def)
  have c: "fst (downloadExportResultArchive noBodyClient () ''out.zip'' oldArchive)
       = Inl (ToolkitError ''Empty response from Amazon Q inline suggestions streaming service'')"
    by (simp add: downloadExportResultArchive_def noBodyClient_def)
  show ?thesis
    using a b c
      empty_response_iff_no_body [of noBodyClient "()" "''out.zip''" oldArchive]
      empty_response_iff_no_body [of emptyBodyClient "()" "''out.zip''" oldArchive]
    by simp
qed

lemma payloadFragments_append:
  "payloadFragments (xs @ ys) = payloadFragments xs @ payloadFragments ys"
  by (simp add: payloadFragments_def List.map_filter_def)

text \<open>
  C10. A chunk that is a binary-payload event without bytes is skipped: the call behaves
  as on the stream without that chunk (same file, same reported total), and it raises
  no error.
\<close>

theorem absent_bytes_chunk_skipped:
  assumes "binaryPayloadEvent chunk = Some chunkData" and "bytes chunkData = None"
  shows "downloadExportResultArchive
           (\<lambda>_. Inr \<lparr>body = Some (before @ chunk # after), requestId = rid\<rparr>) args toPath files
         = downloadExportResultArchive
           (\<lambda>_. Inr \<lparr>body = Some (before @ after), requestId = rid\<rparr>) args toPath files
       \<and> (\<exists>event. fst (downloadExportResultArchive
           (\<lambda>_. Inr \<lparr>body = Some (before @ chunk # after), requestId = rid\<rparr>) args toPath files)
             = Inr event)"
proof -
  have "payloadFragments [chunk] = []"
    using assms by (simp add: payloadFragments_def payloadFragment_def)
  then have "payloadFragments (before @ chunk # after) = payloadFragments (before @ after)"
    using payloadFragments_append [of before "[chunk] @ after"]
      payloadFragments_append [of "[chunk]" after] payloadFragments_append [of before after]
    by simp
  then show ?thesis
    by (simp add: downloadExportResultArchive_def consumeBody_start)
qed

text \<open>
  C10 on a stream of a 3-byte fragment, a payload event without bytes and a 2-byte
  fragment: the file holds the 5 bytes and the reported total is 5.
\<close>

theorem absent_bytes_chunk_skipped_witness:
  "binaryPayloadEvent bytelessChunk = Some \<lparr>bytes = None\<rparr>
   \<and> bytes \<lparr>bytes = None\<rparr> = None
   \<and> downloadExportResultArchive
       (\<lambda>_. Inr \<lparr>body = Some ([payloadChunk [1, 2, 3]] @ bytelessChunk # [payloadChunk [4, 5]]),
                  requestId = None\<rparr>) () ''out.zip'' oldArchive
     = (Inr \<lparr>codeTransformApiNames = ''ExportResultArchive'', codeTransformTotalByteSize = 5,
             codeTransformRequestId = None\<rparr>,
        oldArchive(''out.zip'' \<mapsto> [1, 2, 3, 4, 5]))"
proof -
  have a: "binaryPayloadEvent bytelessChunk = Some \<lparr>bytes = None\<rparr>"
    by (simp add: bytelessChunk_def)
  have b: "bytes \<lparr>bytes = None\<rparr> = None"
    by simp
  have c: "downloadExportResultArchive
       (\<lambda>_. Inr \<lparr>body = Some ([payloadChunk [1, 2, 3]] @ [payloadChunk [4, 5]]),
                  requestId = None\<rparr>) () ''out.zip'' oldArchive
     = (Inr \<lparr>codeTransformApiNames = ''ExportResultArchive'', codeTransformTotalByteSize = 5,
             codeTransformRequestId = None\<rparr>,
        oldArchive(''out.zip'' \<mapsto> [1, 2, 3, 4, 5]))"
    by (simp add: downloadExportResultArchive_def payloadChunk_def writeFile_def)
  show ?thesis
    using a b c
      absent_bytes_chunk_skipped [of bytelessChunk "\<lparr>bytes = None\<rparr>" "[payloadChunk [1, 2, 3]]"
        "[payloadChunk [4, 5]]" None "()" "''out.zip''" oldArchive]
    by simp
qed

section \<open>Properties of the conversation state machine\<close>

subsection \<open>Transitions and cancellation\<close>

text \<open>
  A transition signalled by the handler: the outgoing state's token is cancelled, the
  state named by the handler becomes current, and the approach read from the outgoing
  state after the interaction is written to the new state and to the session.
\<close>

lemma nextInteraction_cancels_outgoing:
  assumes "collectFiles e = Inr fs"
    and "interact e (SessionStateAction fs (task s) msg) (state s) (heap s) = (Inr resp, h)"
    and "nextState resp = Some n"
  shows "state (snd (nextInteraction e msg s)) = n
       \<and> tokenCancelled (objects (heap (snd (nextInteraction e msg s))) (state s))
       \<and> stateApproach (objects (heap (snd (nextInteraction e msg s))) n)
           = stateApproach (objects h (state s))
       \<and> approach (snd (nextInteraction e msg s)) = stateApproach (objects h (state s))"
  using assms by (simp add: nextInteraction_def cancel_def setApproach_def Let_def)

lemma moving_send_cancels_outgoing:
  "state (snd (send movingEnv ''add tests'' (newSession sampleStore))) = 1
   \<and> tokenCancelled (objects (heap (snd (send movingEnv ''add tests'' (newSession sampleStore)))) 0)
   \<and> \<not> tokenCancelled (currentState (snd (send movingEnv ''add tests'' (newSession sampleStore))))"
  by (simp add: sampleStore_def movingEnv_def movingInteract_def machine)

text \<open>
  C1. The two replacements made by the session itself do not cancel the outgoing token.
  On a fresh session, \<open>send('CLEAR')\<close> installs a new Refinement state while the token
  of the state it replaces stays uncancelled; and once the Refinement state has a
  conversation id, \<open>startCodegen()\<close> installs the CodeGen state while the token of the
  Refinement state stays uncancelled.
\<close>

theorem replacement_without_cancel:
  "state (snd (send quietEnv ''CLEAR'' (newSession sampleStore))) \<noteq> state (newSession sampleStore)
   \<and> \<not> tokenCancelled (objects (heap (snd (send quietEnv ''CLEAR'' (newSession sampleStore))))
         (state (newSession sampleStore)))
   \<and> fst (startCodegen quietEnv (snd (send quietEnv ''add tests'' (newSession sampleStore)))) = Inr ()
   \<and> state (snd (startCodegen quietEnv (snd (send quietEnv ''add tests'' (newSession sampleStore)))))
        \<noteq> state (snd (send quietEnv ''add tests'' (newSession sampleStore)))
   \<and> \<not> tokenCancelled
         (objects (heap (snd (startCodegen quietEnv (snd (send quietEnv ''add tests'' (newSession sampleStore))))))
            (state (snd (send quietEnv ''add tests'' (newSession sampleStore)))))"
  by (simp add: sampleStore_def quietEnv_def quietInteract_def startCodegen_def CodeGenState_def machine)

subsection \<open>The recovery boundary\<close>

text \<open>
  What \<open>send\<close> hands to its caller, by the outcome of the internal step; the session is
  left as the internal step left it.
\<close>

lemma send_outcome:
  "fst (send e msg s) =
     (case fst (sendUnsafe e msg s) of
        Inr result \<Rightarrow> Inr result
      | Inl err \<Rightarrow>
          (case err of
             Nullish \<Rightarrow> Inl TypeError
           | Thrown obj \<Rightarrow>
               Inr [\<lparr>origin = ai, type = ''message'', content = errorContent obj\<rparr>]))"
  by (cases "sendUnsafe e msg s") (auto simp: send_def split: sum.splits thrown.splits)

lemma send_session: "snd (send e msg s) = snd (sendUnsafe e msg s)"
  by (cases "sendUnsafe e msg s") (auto simp: send_def split: sum.splits thrown.splits)

text \<open>
  C2. The catch block does not hold for every thrown value. On a fresh session, with a
  handler whose promise rejects with no reason, the internal step throws \<open>undefined\<close>;
  the catch block then fails reading \<open>e.code\<close>, and \<open>send\<close> propagates a \<open>TypeError\<close>
  to its caller instead of returning an interaction.
\<close>

theorem send_rejects_on_nullish_throw:
  "fst (sendUnsafe rejectingEnv ''add tests'' (newSession sampleStore)) = Inl Nullish
   \<and> fst (send rejectingEnv ''add tests'' (newSession sampleStore)) = Inl TypeError"
  by (simp add: sampleStore_def rejectingEnv_def rejectingInteract_def machine)

subsection \<open>Advancing to code generation\<close>

text \<open>
  C6. When the current state has no conversation id (it is absent, or empty),
  \<open>startCodegen()\<close> raises \<open>ConversationIdNotFoundError\<close> and leaves the session as it
  was: current state, task, approach and every state object.
\<close>

theorem startCodegen_without_conversationId:
  assumes "conversationId (currentState s) = None \<or> conversationId (currentState s) = Some ''''"
  shows "startCodegen e s = (Inl ConversationIdNotFoundError, s)"
  using assms by (auto simp: startCodegen_def)

text \<open>C6 on a fresh session, whose Refinement state has no conversation id yet.\<close>

theorem startCodegen_without_conversationId_witness:
  "conversationId (currentState (newSession sampleStore)) = None
   \<and> startCodegen quietEnv (newSession sampleStore)
       = (Inl ConversationIdNotFoundError, newSession sampleStore)"
proof -
  have a: "conversationId (currentState (newSession sampleStore)) = None"
    by (simp add: sampleStore_def machine)
  show ?thesis
    using a startCodegen_without_conversationId [of "newSession sampleStore" quietEnv] by simp
qed

text \<open>
  C5, as the code has it. When \<open>startCodegen()\<close> succeeds, the current state had a
  conversation id, the state installed is a CodeGen state constructed with that
  conversation id and with the approach field of the session (not read from the
  outgoing state), and the call ends with one interaction step with no message on the
  session in which that state is current; task and approach of the session are not
  touched by the installation.
\<close>

theorem startCodegen_seeds_CodeGenState:
  assumes "fst (startCodegen e s) = Inr ()"
  shows "\<exists>cid s1 result.
           conversationId (currentState s) = Some cid
         \<and> currentState s1 = CodeGenState cid (approach s)
         \<and> task s1 = task s \<and> approach s1 = approach s
         \<and> nextInteraction e None s1 = (Inr result, snd (startCodegen e s))"
proof (cases "conversationId (currentState s)")
  case None
  with assms show ?thesis by (simp add: startCodegen_def)
next
  case (Some cid)
  show ?thesis
  proof (cases "cid = ''''")
    case True
    with Some assms show ?thesis by (simp add: startCodegen_def)
  next
    case False
    define s1 where "s1 = s\<lparr>state := nextRef (heap s),
      heap := snd (new (CodeGenState cid (approach s)) (heap s))\<rparr>"
    have sc: "startCodegen e s =
        (case nextInteraction e None s1 of
           (Inl err, s') \<Rightarrow> (Inl (Propagated err), s')
         | (Inr result, s') \<Rightarrow> (Inr (), s'))"
      using Some False by (simp add: startCodegen_def s1_def new_def)
    obtain out s2 where n: "nextInteraction e None s1 = (out, s2)"
      by (cases "nextInteraction e None s1")
    with sc assms obtain result where r: "out = Inr result"
      by (cases out) auto
    have "currentState s1 = CodeGenState cid (approach s)"
      by (simp add: s1_def currentState_def new_def)
    moreover have "task s1 = task s" "approach s1 = approach s"
      by (simp_all add: s1_def)
    moreover have "nextInteraction e None s1 = (Inr result, snd (startCodegen e s))"
      using sc n r by simp
    ultimately show ?thesis using Some by blast
  qed
qed

text \<open>
  C5 after a turn in which the handler signalled a transition, so that the session's
  approach and the current state's approach are both the plan.
\<close>

theorem startCodegen_seeds_CodeGenState_witness:
  "fst (startCodegen movingEnv (snd (send movingEnv ''add tests'' (newSession sampleStore)))) = Inr ()
   \<and> (\<exists>cid s1 result.
           conversationId (currentState (snd (send movingEnv ''add tests'' (newSession sampleStore)))) = Some cid
         \<and> currentState s1
             = CodeGenState cid (approach (snd (send movingEnv ''add tests'' (newSession sampleStore))))
         \<and> task s1 = task (snd (send movingEnv ''add tests'' (newSession sampleStore)))
         \<and> approach s1 = approach (snd (send movingEnv ''add tests'' (newSession sampleStore)))
         \<and> nextInteraction movingEnv None s1
             = (Inr result,
                snd (startCodegen movingEnv (snd (send movingEnv ''add tests'' (newSession sampleStore))))))"
proof -
  have a: "fst (startCodegen movingEnv (snd (send movingEnv ''add tests'' (newSession sampleStore)))) = Inr ()"
    by (simp add: sampleStore_def movingEnv_def movingInteract_def startCodegen_def CodeGenState_def machine)
  show ?thesis
    using a startCodegen_seeds_CodeGenState [OF a] by simp
qed

text \<open>
  C5 as stated fails. A handler that records the approach on the Refinement state
  without signalling a transition leaves the session's own approach empty;
  \<open>startCodegen()\<close> then succeeds and the CodeGen state it installs has the empty
  approach, while the Refinement state's approach at that moment is the plan.
\<close>

theorem startCodegen_approach_counterexample:
  "fst (startCodegen quietEnv (snd (send quietEnv ''add tests'' (newSession sampleStore)))) = Inr ()
   \<and> stateClass (currentState (snd (send quietEnv ''add tests'' (newSession sampleStore))))
       = RefinementStateClass
   \<and> stateApproach (currentState (snd (send quietEnv ''add tests'' (newSession sampleStore))))
       = ''plan A''
   \<and> currentState (snd (startCodegen quietEnv (snd (send quietEnv ''add tests'' (newSession sampleStore)))))
       = CodeGenState ''c1'' ''''"
  by (simp add: sampleStore_def quietEnv_def quietInteract_def startCodegen_def CodeGenState_def machine)

subsection \<open>A turn that fails\<close>

text \<open>
  An interaction step that throws leaves the session as it was, but for the state
  objects, which are as the handler left them when it threw (and untouched when the
  file collection threw, before the handler ran).
\<close>

lemma nextInteraction_failure:
  assumes "fst (nextInteraction e msg s) = Inl err"
  shows "snd (nextInteraction e msg s) =
           s\<lparr>heap := (case collectFiles e of
                        Inl x \<Rightarrow> heap s
                      | Inr fs \<Rightarrow> snd (interact e (SessionStateAction fs (task s) msg) (state s) (heap s)))\<rparr>"
  using assms
  by (auto simp: nextInteraction_def Let_def split: sum.splits prod.splits option.splits)

text \<open>
  C7, as the code has it. When the internal step throws and \<open>send\<close> catches it, the
  session afterwards is the session before the call with two changes only. The task,
  if it was empty, is now the message of the failed turn. The state objects are as the
  interaction handler left them when it threw; the session itself touches none of them,
  so when the failure came from the file collection they are all as before and the
  current state is unchanged. The reference to the current state and the approach are
  as before. What the caller gets is the one interaction describing the failure, or a
  \<open>TypeError\<close> when the thrown value was \<open>undefined\<close> or \<open>null\<close>.
\<close>

theorem send_failure_keeps_session:
  assumes "fst (sendUnsafe e msg s) = Inl err"
  shows "snd (send e msg s) =
           s\<lparr>task := (if task s = '''' then msg else task s),
             heap := (case collectFiles e of
                        Inl x \<Rightarrow> heap s
                      | Inr fs \<Rightarrow>
                          snd (interact e
                                 (SessionStateAction fs (if task s = '''' then msg else task s) (Some msg))
                                 (state s) (heap s)))\<rparr>
       \<and> state (snd (send e msg s)) = state s
       \<and> approach (snd (send e msg s)) = approach s
       \<and> (\<forall>x. collectFiles e = Inl x \<longrightarrow> currentState (snd (send e msg s)) = currentState s)
       \<and> fst (send e msg s) =
           (case err of
              Nullish \<Rightarrow> Inl TypeError
            | Thrown obj \<Rightarrow>
                Inr [\<lparr>origin = ai, type = ''message'', content = errorContent obj\<rparr>])"
proof -
  have nc: "msg \<noteq> ''CLEAR''"
    using assms by (auto simp: sendUnsafe_def split: prod.splits)
  define s0 where "s0 = (if task s = '''' then s\<lparr>task := msg\<rparr> else s)"
  have su: "sendUnsafe e msg s = nextInteraction e (Some msg) s0"
    using nc by (simp add: sendUnsafe_def s0_def)
  have f: "fst (nextInteraction e (Some msg) s0) = Inl err"
    using assms su by simp
  have whole: "snd (send e msg s) =
           s\<lparr>task := (if task s = '''' then msg else task s),
             heap := (case collectFiles e of
                        Inl x \<Rightarrow> heap s
                      | Inr fs \<Rightarrow>
                          snd (interact e
                                 (SessionStateAction fs (if task s = '''' then msg else task s) (Some msg))
                                 (state s) (heap s)))\<rparr>"
    using nextInteraction_failure [OF f]
    by (cases "task s = ''''") (auto simp: send_session su s0_def split: sum.splits)
  have out: "fst (send e msg s) =
           (case err of
              Nullish \<Rightarrow> Inl TypeError
            | Thrown obj \<Rightarrow>
                Inr [\<lparr>origin = ai, type = ''message'', content = errorContent obj\<rparr>])"
    using assms by (simp add: send_outcome)
  have cur: "\<forall>x. collectFiles e = Inl x \<longrightarrow> currentState (snd (send e msg s)) = currentState s"
    by (simp add: whole currentState_def)
  show ?thesis
    using whole out cur by simp
qed

text \<open>
  C7 on the first turn of a fresh session, once with a file collection that throws and
  once with a handler that writes an approach on its state and then throws. In both the
  token of the current state is still uncancelled and its conversation id still absent;
  in the first the current state is the fresh Refinement state, in the second it carries
  what the handler wrote.
\<close>

theorem send_failure_keeps_session_witness:
  "fst (sendUnsafe failingEnv ''add tests'' (newSession sampleStore)) = Inl (Thrown noDirectory)
   \<and> snd (send failingEnv ''add tests'' (newSession sampleStore))
       = (newSession sampleStore)\<lparr>task := ''add tests''\<rparr>
   \<and> currentState (snd (send failingEnv ''add tests'' (newSession sampleStore))) = RefinementState ''''
   \<and> fst (send failingEnv ''add tests'' (newSession sampleStore))
       = Inr [\<lparr>origin = ai, type = ''message'', content = errorContent noDirectory\<rparr>]
   \<and> fst (sendUnsafe wreckingEnv ''add tests'' (newSession sampleStore)) = Inl (Thrown throttled)
   \<and> state (snd (send wreckingEnv ''add tests'' (newSession sampleStore))) = 0
   \<and> approach (snd (send wreckingEnv ''add tests'' (newSession sampleStore))) = ''''
   \<and> task (snd (send wreckingEnv ''add tests'' (newSession sampleStore))) = ''add tests''
   \<and> currentState (snd (send wreckingEnv ''add tests'' (newSession sampleStore)))
       = RefinementState ''half a plan''"
proof -
  have a: "fst (sendUnsafe failingEnv ''add tests'' (newSession sampleStore)) = Inl (Thrown noDirectory)"
    by (simp add: sampleStore_def failingEnv_def machine)
  have b: "fst (sendUnsafe wreckingEnv ''add tests'' (newSession sampleStore)) = Inl (Thrown throttled)"
    by (simp add: sampleStore_def wreckingEnv_def wreckingInteract_def machine)
  have c: "collectFiles failingEnv = Inl (Thrown noDirectory)" "collectFiles wreckingEnv = Inr []"
    "interact wreckingEnv = wreckingInteract"
    by (simp_all add: failingEnv_def wreckingEnv_def)
  have d: "state (newSession sampleStore) = 0" "approach (newSession sampleStore) = ''''"
    "task (newSession sampleStore) = ''''" "currentState (newSession sampleStore) = RefinementState ''''"
    "objects (setApproach 0 ''half a plan'' (heap (newSession sampleStore))) 0
       = RefinementState ''half a plan''"
    by (simp_all add: sampleStore_def newSession_def new_def currentState_def RefinementState_def
        setApproach_def)
  show ?thesis
    using a b c d
      send_failure_keeps_session [OF a]
      send_failure_keeps_session [OF b]
    by (simp add: currentState_def wreckingInteract_def)
qed

text \<open>
  C7 as stated fails. On a fresh session the task is empty; a first turn whose file
  collection throws is caught by \<open>send\<close>, and afterwards the task is the message of that
  turn. And a handler that writes an approach on its state before it throws is caught
  too, and afterwards the current state carries that approach, not the one it had
  before the call.
\<close>

theorem send_failure_task_counterexample:
  "fst (sendUnsafe failingEnv ''add tests'' (newSession sampleStore)) = Inl (Thrown noDirectory)
   \<and> task (newSession sampleStore) = ''''
   \<and> task (snd (send failingEnv ''add tests'' (newSession sampleStore))) = ''add tests''
   \<and> fst (sendUnsafe wreckingEnv ''add tests'' (newSession sampleStore)) = Inl (Thrown throttled)
   \<and> stateApproach (currentState (newSession sampleStore)) = ''''
   \<and> stateApproach (currentState (snd (send wreckingEnv ''add tests'' (newSession sampleStore))))
       = ''half a plan''"
  by (simp add: sampleStore_def failingEnv_def wreckingEnv_def wreckingInteract_def machine)

subsection \<open>The task\<close>

lemma nextInteraction_task: "task (snd (nextInteraction e msg s)) = task s"
  by (auto simp: nextInteraction_def Let_def split: sum.splits prod.splits option.splits)

lemma send_task:
  assumes "msg \<noteq> ''CLEAR''"
  shows "task (snd (send e msg s)) = (if task s = '''' then msg else task s)"
proof -
  define s0 where "s0 = (if task s = '''' then s\<lparr>task := msg\<rparr> else s)"
  have "snd (send e msg s) = snd (nextInteraction e (Some msg) s0)"
    using assms by (simp add: send_session sendUnsafe_def s0_def)
  then show ?thesis
    by (simp add: nextInteraction_task s0_def)
qed

lemma sends_task:
  "''CLEAR'' \<notin> set (map snd turns) \<Longrightarrow>
   task (sends turns s) =
     (if task s \<noteq> '''' then task s
      else case find (\<lambda>msg. msg \<noteq> '''') (map snd turns) of None \<Rightarrow> '''' | Some msg \<Rightarrow> msg)"
proof (induction turns arbitrary: s)
  case Nil
  show ?case by simp
next
  case (Cons turn turns)
  obtain e msg where t: "turn = (e, msg)" by (cases turn)
  have nc: "msg \<noteq> ''CLEAR''" using Cons.prems t by auto
  have rest: "''CLEAR'' \<notin> set (map snd turns)" using Cons.prems by simp
  show ?case
    using Cons.IH [OF rest, of "snd (send e msg s)"] send_task [OF nc, of e s] t
    by simp
qed

lemma sendUnsafe_forwards:
  assumes "msg \<noteq> ''CLEAR''" and "collectFiles e = Inr fs"
  shows "fst (sendUnsafe e msg s) =
           map_sum id interactions
             (fst (interact e (SessionStateAction fs (if task s = '''' then msg else task s) (Some msg))
                (state s) (heap s)))"
  using assms
  by (auto simp: sendUnsafe_def nextInteraction_def Let_def split: sum.splits prod.splits option.splits)

text \<open>
  C8, as the code has it. Over any run of non-control messages, a task that is set stays
  as it is, and a task that is empty becomes the first non-empty message of the run (an
  empty message leaves it unset). And in any session, a non-control message whose file
  collection succeeds is forwarded as the turn's message, with the task, to the handler
  of the current state, whose outcome is the outcome of the turn.
\<close>

theorem task_set_by_first_nonempty_message:
  assumes "''CLEAR'' \<notin> set (map snd turns)"
  shows "task (sends turns s) =
           (if task s \<noteq> '''' then task s
            else case find (\<lambda>msg. msg \<noteq> '''') (map snd turns) of None \<Rightarrow> '''' | Some msg \<Rightarrow> msg)
       \<and> (\<forall>e msg s' fs. msg \<noteq> ''CLEAR'' \<and> collectFiles e = Inr fs \<longrightarrow>
            fst (sendUnsafe e msg s') =
              map_sum id interactions
                (fst (interact e (SessionStateAction fs (if task s' = '''' then msg else task s') (Some msg))
                   (state s') (heap s'))))"
  using sends_task [OF assms] sendUnsafe_forwards by blast

text \<open>
  C8 on a run of an empty message and two others from a fresh session: the task is the
  second message; and a message sent to a fresh session reaches the handler.
\<close>

theorem task_set_by_first_nonempty_message_witness:
  "''CLEAR'' \<notin> set (map snd [(quietEnv, ''''), (quietEnv, ''add tests''), (quietEnv, ''more'')])
   \<and> task (sends [(quietEnv, ''''), (quietEnv, ''add tests''), (quietEnv, ''more'')] (newSession sampleStore))
       = ''add tests''
   \<and> fst (sendUnsafe quietEnv ''more'' (newSession sampleStore))
       = Inr [\<lparr>origin = ai, type = ''message'', content = ''plan A''\<rparr>]"
proof -
  have a: "''CLEAR'' \<notin> set (map snd [(quietEnv, ''''), (quietEnv, ''add tests''), (quietEnv, ''more'')])"
    by simp
  have b: "task (newSession sampleStore) = ''''" "collectFiles quietEnv = Inr []"
    by (simp_all add: sampleStore_def quietEnv_def quietInteract_def machine)
  have c: "fst (interact quietEnv (SessionStateAction [] ''more'' (Some ''more''))
                   (state (newSession sampleStore)) (heap (newSession sampleStore)))
           = Inr \<lparr>nextState = None,
              interactions = [\<lparr>origin = ai, type = ''message'', content = ''plan A''\<rparr>]\<rparr>"
    by (simp add: sampleStore_def quietEnv_def quietInteract_def machine)
  from task_set_by_first_nonempty_message [OF a, of "newSession sampleStore"]
  have t: "task (sends [(quietEnv, ''''), (quietEnv, ''add tests''), (quietEnv, ''more'')] (newSession sampleStore))
       = ''add tests''"
    and f: "fst (sendUnsafe quietEnv ''more'' (newSession sampleStore)) =
              map_sum id interactions
                (fst (interact quietEnv
                   (SessionStateAction []
                      (if task (newSession sampleStore) = '''' then ''more'' else task (newSession sampleStore))
                      (Some ''more''))
                   (state (newSession sampleStore)) (heap (newSession sampleStore))))"
    using b by simp_all
  show ?thesis using a t f b c by simp
qed

text \<open>
  C8 as stated fails. After an empty first message the task is still empty and the next
  message sets it, so a subsequent message changes the task. And a message whose file
  collection throws is not forwarded: the caller gets the failure interaction and the
  session, with its state objects, is as before.
\<close>

theorem later_message_sets_task_counterexample:
  "task (sends [(quietEnv, '''')] (newSession sampleStore)) = ''''
   \<and> task (sends [(quietEnv, ''''), (quietEnv, ''add tests'')] (newSession sampleStore)) = ''add tests''
   \<and> fst (send failingEnv ''more'' (sends [(quietEnv, ''add tests'')] (newSession sampleStore)))
       = Inr [\<lparr>origin = ai, type = ''message'', content = errorContent noDirectory\<rparr>]
   \<and> snd (send failingEnv ''more'' (sends [(quietEnv, ''add tests'')] (newSession sampleStore)))
       = sends [(quietEnv, ''add tests'')] (newSession sampleStore)"
  by (simp add: sampleStore_def quietEnv_def quietInteract_def sampleStore_def failingEnv_def
      machine)

end
